theory Spec2Isabelle
  imports Main
begin

section \<open>Values, exceptions and the environment of \<open>prefect_gcp.credentials\<close>\<close>

text \<open>
  The module is glue between a configuration block and the vendor SDKs. Everything the
  module itself decides is embedded below; everything it delegates to (the filesystem
  behind \<open>pathlib.Path\<close>, the \<open>google.auth\<close> constructors, the client classes) is a
  parameter, so that every theorem holds for whatever those libraries do.
\<close>

type_synonym path = string

text \<open>
  The value of \<open>service_account_info\<close> after field coercion: \<open>None\<close>, a
  \<open>Dict[str, str]\<close>, or whatever a \<open>Json\<close> string decodes to. JSON numbers are
  kept as integers; a dictionary is the list of its items.
\<close>

datatype py =
    PyNone
  | PyBool bool
  | PyInt int
  | PyStr string
  | PyList "py list"
  | PyDict "(string \<times> py) list"

text \<open>Python's truth value of such a value, as \<open>if x:\<close> tests it.\<close>

fun truthy :: "py \<Rightarrow> bool" where
  "truthy PyNone = False"
| "truthy (PyBool b) = b"
| "truthy (PyInt i) = (i \<noteq> 0)"
| "truthy (PyStr s) = (s \<noteq> [])"
| "truthy (PyList xs) = (xs \<noteq> [])"
| "truthy (PyDict kvs) = (kvs \<noteq> [])"

text \<open>The truth value of an \<open>Optional[str]\<close>: neither \<open>None\<close> nor the empty string.\<close>

definition str_truthy :: "string option \<Rightarrow> bool" where
  "str_truthy s = (case s of None \<Rightarrow> False | Some t \<Rightarrow> t \<noteq> [])"

text \<open>\<open>a or b\<close> on two \<open>Optional[str]\<close> values: \<open>a\<close> when it is truthy, else \<open>b\<close>.\<close>

definition py_or :: "string option \<Rightarrow> string option \<Rightarrow> string option" where
  "py_or a b = (if str_truthy a then a else b)"

text \<open>
  The exceptions the module raises or catches by class, each with its message;
  \<open>OtherError\<close> stands for every exception of the libraries that is none of these
  classes (a parse error of the key, missing default credentials, a rejected refresh,
  a missing attribute).
\<close>

datatype exn =
    ValueError string
  | NameError string
  | ImportError string
  | OtherError string

text \<open>The four fields of the block.\<close>

record GcpCredentials =
  service_account_file :: "path option"
  service_account_info :: py
  project :: "string option"
  infer_project :: bool

text \<open>What the validator of the key file asks of \<open>pathlib.Path\<close>.\<close>

record filesystem =
  expanduser :: "path \<Rightarrow> path"
  exists :: "path \<Rightarrow> bool"

text \<open>
  The vendor SDK: \<open>'c\<close> are its credential objects, \<open>'k\<close> its clients, \<open>'w\<close> the
  state of the identity token endpoint at the time of a refresh. A client class is
  \<open>None\<close> when its import at the top of the module failed with
  \<open>ModuleNotFoundError\<close>, which leaves the name unbound.
\<close>

record ('c, 'k, 'w) sdk =
  from_service_account_info :: "py \<Rightarrow> string list \<Rightarrow> exn + 'c"
  from_service_account_file :: "path \<Rightarrow> string list \<Rightarrow> exn + 'c"
  auth_default :: "exn + ('c \<times> string option)"
  project_id :: "'c \<Rightarrow> exn + string option"
  refresh :: "'c \<Rightarrow> 'w \<Rightarrow> exn + 'c"
  token :: "'c \<Rightarrow> string option"
  StorageClient :: "('c \<Rightarrow> string option \<Rightarrow> exn + 'k) option"
  BigQueryClient :: "('c \<Rightarrow> string option \<Rightarrow> string option \<Rightarrow> exn + 'k) option"
  SecretManagerServiceClient :: "('c \<Rightarrow> exn + 'k) option"

section \<open>Validation at construction\<close>

definition both_sources_msg :: string where
  "both_sources_msg =
     ''Only one of service_account_info or service_account_file can be specified at once''"

definition infer_project_msg :: string where
  "infer_project_msg = ''Unable to infer project with a project already set''"

definition invalid_path_msg :: string where
  "invalid_path_msg = ''The provided path to the service account is invalid''"

text \<open>
  The two root validators read the dictionary \<open>values\<close> with \<open>values.get\<close>, which
  gives \<open>None\<close> for a missing key; the record holds \<open>None\<close> for such a field.
\<close>

definition provide_one_service_account_source :: "GcpCredentials \<Rightarrow> exn + GcpCredentials" where
  "provide_one_service_account_source values =
     (let both_service_account =
            (service_account_info values \<noteq> PyNone \<and> service_account_file values \<noteq> None)
      in if both_service_account then Inl (ValueError both_sources_msg) else Inr values)"

definition cannot_infer_project_with_specified_project ::
    "GcpCredentials \<Rightarrow> exn + GcpCredentials" where
  "cannot_infer_project_with_specified_project values =
     (if infer_project values \<and> str_truthy (project values)
      then Inl (ValueError infer_project_msg)
      else Inr values)"

text \<open>
  The field validator of \<open>service_account_file\<close>. A \<open>Path\<close> object is always
  truthy, so \<open>not file\<close> holds for \<open>None\<close> only.
\<close>

definition check_service_account_file :: "filesystem \<Rightarrow> path option \<Rightarrow> exn + path option" where
  "check_service_account_file fs file =
     (case file of
        None \<Rightarrow> Inr None
      | Some f \<Rightarrow>
          (let service_account_file' = expanduser fs f
           in if \<not> exists fs service_account_file'
              then Inl (ValueError invalid_path_msg)
              else Inr (Some service_account_file')))"

text \<open>
  The block is a pydantic model. Construction (\<open>validate_model\<close> there) runs the
  validators of the class as their decorators register them: the field
  validator first (\<open>@validator\<close>), then the root validators in the order of the class
  body (\<open>@root_validator\<close> without \<open>pre\<close>, so after the fields, and without
  \<open>skip_on_failure\<close>, so also after a failure). A field whose validator raised is
  left out of \<open>values\<close>; every \<open>ValueError\<close> is collected, and construction fails
  with the collected errors when there is one, and gives the validated record otherwise.
\<close>

definition validate_model :: "filesystem \<Rightarrow> GcpCredentials \<Rightarrow> exn list + GcpCredentials" where
  "validate_model fs input =
     (let (values1, errors1) =
            (case check_service_account_file fs (service_account_file input) of
               Inl e \<Rightarrow> (input\<lparr>service_account_file := None\<rparr>, [e])
             | Inr f \<Rightarrow> (input\<lparr>service_account_file := f\<rparr>, []));
          (values2, errors2) =
            (case provide_one_service_account_source values1 of
               Inl e \<Rightarrow> (values1, errors1 @ [e])
             | Inr v \<Rightarrow> (v, errors1));
          (values3, errors3) =
            (case cannot_infer_project_with_specified_project values2 of
               Inl e \<Rightarrow> (values2, errors2 @ [e])
             | Inr v \<Rightarrow> (v, errors2))
      in if errors3 = [] then Inr values3 else Inl errors3)"

section \<open>Credential resolution, initialization and the token\<close>

definition cloud_platform_scopes :: "string list" where
  "cloud_platform_scopes = [''https://www.googleapis.com/auth/cloud-platform'']"

definition get_credentials_from_service_account ::
    "('c, 'k, 'w) sdk \<Rightarrow> GcpCredentials \<Rightarrow> exn + 'c" where
  "get_credentials_from_service_account vendor self =
     (if truthy (service_account_info self)
      then from_service_account_info vendor (service_account_info self) cloud_platform_scopes
      else (case service_account_file self of
              Some file \<Rightarrow> from_service_account_file vendor file cloud_platform_scopes
            | None \<Rightarrow>
                (case auth_default vendor of
                   Inl e \<Rightarrow> Inl e
                 | Inr (credentials, _) \<Rightarrow> Inr credentials)))"

text \<open>
  \<open>block_initialization\<close> is the one method that assigns to a field of \<open>self\<close>: it
  returns the record as it is afterwards. Reading \<open>credentials.project_id\<close> can raise
  (not every credential class has the attribute).
\<close>

definition block_initialization ::
    "('c, 'k, 'w) sdk \<Rightarrow> GcpCredentials \<Rightarrow> exn + GcpCredentials" where
  "block_initialization vendor self =
     (if infer_project self
      then (case get_credentials_from_service_account vendor self of
              Inl e \<Rightarrow> Inl e
            | Inr credentials \<Rightarrow>
                (case project_id vendor credentials of
                   Inl e \<Rightarrow> Inl e
                 | Inr p \<Rightarrow> Inr (self\<lparr>project := p\<rparr>)))
      else Inr self)"

text \<open>
  \<open>get_access_token\<close> at the endpoint state \<open>w\<close>: \<open>credentials.refresh(request)\<close>
  updates the credential object, whose \<open>token\<close> is then returned.
\<close>

definition get_access_token ::
    "('c, 'k, 'w) sdk \<Rightarrow> GcpCredentials \<Rightarrow> 'w \<Rightarrow> exn + string option" where
  "get_access_token vendor self w =
     (case get_credentials_from_service_account vendor self of
        Inl e \<Rightarrow> Inl e
      | Inr credentials \<Rightarrow>
          (case refresh vendor credentials w of
             Inl e \<Rightarrow> Inl e
           | Inr credentials' \<Rightarrow> Inr (token vendor credentials')))"

section \<open>The client factories\<close>

definition help_msg :: "string \<Rightarrow> string" where
  "help_msg key =
     ''To use prefect_gcp.'' @ key @ '', install prefect-gcp with the '' @ [CHR 0x27] @ key
       @ [CHR 0x27] @ '' extra: '' @ [CHR 0x60] @ ''pip install '' @ [CHR 0x27]
       @ ''prefect_gcp['' @ key @ '']'' @ [CHR 0x27, CHR 0x60]"

text \<open>
  The decorator: \<open>raise_help_msg key func\<close> is \<open>inner\<close>, which turns a
  \<open>NameError\<close> of \<open>func\<close> into the \<open>ImportError\<close> with the install hint and lets
  everything else through.
\<close>

definition raise_help_msg :: "string \<Rightarrow> ('a \<Rightarrow> exn + 'b) \<Rightarrow> 'a \<Rightarrow> exn + 'b" where
  "raise_help_msg key func args =
     (case func args of
        Inl (NameError m) \<Rightarrow> Inl (ImportError (help_msg key))
      | Inl e \<Rightarrow> Inl e
      | Inr r \<Rightarrow> Inr r)"

definition unbound_name :: "string \<Rightarrow> exn" where
  "unbound_name n = NameError (''name '' @ [CHR 0x27] @ n @ [CHR 0x27] @ '' is not defined'')"

definition cloud_storage_client_body ::
    "('c, 'k, 'w) sdk \<Rightarrow> GcpCredentials \<times> string option \<Rightarrow> exn + 'k" where
  "cloud_storage_client_body vendor = (\<lambda>(self, project0).
     (case get_credentials_from_service_account vendor self of
        Inl e \<Rightarrow> Inl e
      | Inr credentials \<Rightarrow>
          (let project' = py_or project0 (project self)
           in case StorageClient vendor of
                None \<Rightarrow> Inl (unbound_name ''StorageClient'')
              | Some new \<Rightarrow> new credentials project')))"

definition get_cloud_storage_client ::
    "('c, 'k, 'w) sdk \<Rightarrow> GcpCredentials \<Rightarrow> string option \<Rightarrow> exn + 'k" where
  "get_cloud_storage_client vendor self project0 =
     raise_help_msg ''cloud_storage'' (cloud_storage_client_body vendor) (self, project0)"

definition bigquery_client_body ::
    "('c, 'k, 'w) sdk \<Rightarrow> GcpCredentials \<times> string option \<times> string option \<Rightarrow> exn + 'k" where
  "bigquery_client_body vendor = (\<lambda>(self, project0, location).
     (case get_credentials_from_service_account vendor self of
        Inl e \<Rightarrow> Inl e
      | Inr credentials \<Rightarrow>
          (let project' = py_or project0 (project self)
           in case BigQueryClient vendor of
                None \<Rightarrow> Inl (unbound_name ''BigQueryClient'')
              | Some new \<Rightarrow> new credentials project' location)))"

definition get_bigquery_client ::
    "('c, 'k, 'w) sdk \<Rightarrow> GcpCredentials \<Rightarrow> string option \<Rightarrow> string option \<Rightarrow> exn + 'k" where
  "get_bigquery_client vendor self project0 location =
     raise_help_msg ''bigquery'' (bigquery_client_body vendor) (self, project0, location)"

definition secret_manager_client_body :: "('c, 'k, 'w) sdk \<Rightarrow> GcpCredentials \<Rightarrow> exn + 'k" where
  "secret_manager_client_body vendor self =
     (case get_credentials_from_service_account vendor self of
        Inl e \<Rightarrow> Inl e
      | Inr credentials \<Rightarrow>
          (case SecretManagerServiceClient vendor of
             None \<Rightarrow> Inl (unbound_name ''SecretManagerServiceClient'')
           | Some new \<Rightarrow> new credentials))"

definition get_secret_manager_client :: "('c, 'k, 'w) sdk \<Rightarrow> GcpCredentials \<Rightarrow> exn + 'k" where
  "get_secret_manager_client vendor self =
     raise_help_msg ''secret_manager'' (secret_manager_client_body vendor) self"

section \<open>The record over its life\<close>

text \<open>
  A method call on the block: its outcome and the record as the call leaves it. Only
  \<open>block_initialization\<close> contains an assignment to \<open>self\<close>; when it raises, the
  assignment has not been reached.
\<close>

datatype call =
    GetCredentialsFromServiceAccount
  | GetAccessToken
  | GetCloudStorageClient "string option"
  | GetBigqueryClient "string option" "string option"
  | GetSecretManagerClient
  | BlockInitialization

datatype ('c, 'k) outcome =
    Credentials 'c
  | Token "string option"
  | Client 'k
  | Nothing

definition invoke ::
    "('c, 'k, 'w) sdk \<Rightarrow> 'w \<Rightarrow> call \<Rightarrow> GcpCredentials \<Rightarrow> (exn + ('c, 'k) outcome) \<times> GcpCredentials" where
  "invoke vendor w m self =
     (case m of
        GetCredentialsFromServiceAccount \<Rightarrow>
          (map_sum id Credentials (get_credentials_from_service_account vendor self), self)
      | GetAccessToken \<Rightarrow> (map_sum id Token (get_access_token vendor self w), self)
      | GetCloudStorageClient project0 \<Rightarrow>
          (map_sum id Client (get_cloud_storage_client vendor self project0), self)
      | GetBigqueryClient project0 location \<Rightarrow>
          (map_sum id Client (get_bigquery_client vendor self project0 location), self)
      | GetSecretManagerClient \<Rightarrow>
          (map_sum id Client (get_secret_manager_client vendor self), self)
      | BlockInitialization \<Rightarrow>
          (case block_initialization vendor self of
             Inl e \<Rightarrow> (Inl e, self)
           | Inr self' \<Rightarrow> (Inr Nothing, self')))"

section \<open>The vendor's key-file constructor\<close>

text \<open>
  Modelled from the spec: \<open>Credentials.from_service_account_file\<close> belongs to the
  vendor SDK and is not part of the repository. The spec says of it that "given a valid
  key file, the result is behaviorally identical regardless of source": the constructor
  builds from the key a file holds what \<open>from_service_account_info\<close> builds from that
  key. \<open>holds\<close> gives the key each path holds.
\<close>

definition from_service_account_file_spec ::
    "(path \<Rightarrow> py option) \<Rightarrow> ('c, 'k, 'w) sdk \<Rightarrow> path \<Rightarrow> string list \<Rightarrow> exn + 'c" where
  "from_service_account_file_spec holds vendor file scopes =
     (case holds file of
        None \<Rightarrow> Inl (OtherError ''FileNotFoundError'')
      | Some key \<Rightarrow> from_service_account_info vendor key scopes)"

section \<open>An environment to run the module in\<close>

text \<open>
  A home directory with one key file, and an SDK whose credentials are a name with the
  token of the last refresh, whose clients are the class name with the credentials' name
  and the project, and whose token endpoint issues the token its state names.
\<close>

definition home_fs :: filesystem where
  "home_fs =
     \<lparr>expanduser = (\<lambda>p. if take 2 p = ''~/'' then ''/home/flow'' @ drop 1 p else p),
      exists = (\<lambda>p. p = ''/home/flow/key.json'')\<rparr>"

definition sample_key :: py where
  "sample_key = PyDict [(''type'', PyStr ''service_account''), (''project_id'', PyStr ''acme'')]"

definition home_keys :: "path \<Rightarrow> py option" where
  "home_keys = (\<lambda>p. if p = ''/home/flow/key.json'' then Some sample_key else None)"

definition toy_sdk ::
    "(string \<times> string option, string \<times> string \<times> string option, string) sdk" where
  "toy_sdk =
     \<lparr>from_service_account_info =
        (\<lambda>k s. if k = sample_key then Inr (''service-account'', None)
               else Inl (ValueError ''malformed key'')),
      from_service_account_file =
        (\<lambda>p s. if p = ''/home/flow/key.json'' then Inr (''service-account'', None)
               else Inl (OtherError ''FileNotFoundError'')),
      auth_default = Inr ((''ambient'', None), Some ''ambient-project''),
      project_id =
        (\<lambda>c. if fst c = ''service-account'' then Inr (Some ''acme'')
             else Inl (OtherError ''AttributeError'')),
      refresh = (\<lambda>c w. Inr (fst c, Some w)),
      token = snd,
      StorageClient = Some (\<lambda>c p. Inr (''storage'', fst c, p)),
      BigQueryClient = Some (\<lambda>c p l. Inr (''bigquery'', fst c, p)),
      SecretManagerServiceClient = Some (\<lambda>c. Inr (''secretmanager'', fst c, None))\<rparr>"

text \<open>The same SDK with none of the three optional packages installed.\<close>

definition bare_sdk ::
    "(string \<times> string option, string \<times> string \<times> string option, string) sdk" where
  "bare_sdk =
     toy_sdk\<lparr>StorageClient := None, BigQueryClient := None,
             SecretManagerServiceClient := None\<rparr>"

text \<open>And on a machine where no default credentials are to be found either.\<close>

definition stranded_sdk ::
    "(string \<times> string option, string \<times> string \<times> string option, string) sdk" where
  "stranded_sdk = bare_sdk\<lparr>auth_default := Inl (OtherError ''DefaultCredentialsError'')\<rparr>"

definition blank :: GcpCredentials where
  "blank =
     \<lparr>service_account_file = None, service_account_info = PyNone,
      project = None, infer_project = False\<rparr>"

section \<open>Auxiliary facts\<close>

text \<open>The three messages of the validators are pairwise different.\<close>
lemma msgs_distinct:
  "both_sources_msg \<noteq> invalid_path_msg" "both_sources_msg \<noteq> infer_project_msg"
  "invalid_path_msg \<noteq> infer_project_msg"
  by (simp_all add: both_sources_msg_def invalid_path_msg_def infer_project_msg_def)

text \<open>
  Construction in closed form: the file's validator decides whether the conflict check
  sees a file at all; the check on \<open>infer_project\<close> reads fields that no validator
  changes.
\<close>
lemma validate_model_cases:
  "validate_model fs input =
     (case check_service_account_file fs (service_account_file input) of
        Inl e \<Rightarrow>
          Inl (e # (if infer_project input \<and> str_truthy (project input)
                    then [ValueError infer_project_msg] else []))
      | Inr f \<Rightarrow>
          (let es = (if service_account_info input \<noteq> PyNone \<and> f \<noteq> None
                     then [ValueError both_sources_msg] else [])
                  @ (if infer_project input \<and> str_truthy (project input)
                     then [ValueError infer_project_msg] else [])
           in if es = [] then Inr (input\<lparr>service_account_file := f\<rparr>) else Inl es))"
  by (auto simp: validate_model_def provide_one_service_account_source_def
        cannot_infer_project_with_specified_project_def Let_def split: sum.splits)

lemma check_file_Some:
  "check_service_account_file fs (Some p) =
     (if exists fs (expanduser fs p) then Inr (Some (expanduser fs p))
      else Inl (ValueError invalid_path_msg))"
  by (simp add: check_service_account_file_def Let_def)

lemma check_file_None: "check_service_account_file fs None = Inr None"
  by (simp add: check_service_account_file_def)

text \<open>The decorator lets every result through and rewrites a \<open>NameError\<close>.\<close>
lemma raise_help_msg_Inr: "(raise_help_msg key func args = Inr r) = (func args = Inr r)"
  by (auto simp: raise_help_msg_def split: sum.splits exn.splits)

lemma raise_help_msg_NameError:
  "func args = Inl (NameError m) \<Longrightarrow> raise_help_msg key func args = Inl (ImportError (help_msg key))"
  by (simp add: raise_help_msg_def)

text \<open>
  A factory returns a client exactly when credentials resolve, the class is bound and
  its constructor returns that client.
\<close>
lemma storage_client_returned:
  "(get_cloud_storage_client vendor self p = Inr k) =
     (\<exists>c new. get_credentials_from_service_account vendor self = Inr c
        \<and> StorageClient vendor = Some new \<and> new c (py_or p (project self)) = Inr k)"
  by (auto simp: get_cloud_storage_client_def raise_help_msg_Inr cloud_storage_client_body_def
        unbound_name_def Let_def split: sum.splits option.splits)

lemma bigquery_client_returned:
  "(get_bigquery_client vendor self p l = Inr k) =
     (\<exists>c new. get_credentials_from_service_account vendor self = Inr c
        \<and> BigQueryClient vendor = Some new \<and> new c (py_or p (project self)) l = Inr k)"
  by (auto simp: get_bigquery_client_def raise_help_msg_Inr bigquery_client_body_def
        unbound_name_def Let_def split: sum.splits option.splits)

lemma secret_manager_client_returned:
  "(get_secret_manager_client vendor self = Inr k) =
     (\<exists>c new. get_credentials_from_service_account vendor self = Inr c
        \<and> SecretManagerServiceClient vendor = Some new \<and> new c = Inr k)"
  by (auto simp: get_secret_manager_client_def raise_help_msg_Inr secret_manager_client_body_def
        unbound_name_def split: sum.splits option.splits)

text \<open>An argument that is \<open>None\<close> or the empty string leaves the project to the block.\<close>
lemma py_or_empty: "py_or (Some []) b = b" "py_or None b = b"
  by (simp_all add: py_or_def str_truthy_def)

lemma storage_client_empty_project:
  "get_cloud_storage_client vendor self (Some []) = get_cloud_storage_client vendor self None"
  by (simp add: get_cloud_storage_client_def cloud_storage_client_body_def raise_help_msg_def
        py_or_empty Let_def cong: sum.case_cong option.case_cong)

lemma bigquery_client_empty_project:
  "get_bigquery_client vendor self (Some []) l = get_bigquery_client vendor self None l"
  by (simp add: get_bigquery_client_def bigquery_client_body_def raise_help_msg_def
        py_or_empty Let_def cong: sum.case_cong option.case_cong)

text \<open>The install hint of each of the three decorated factories, written out.\<close>
lemma help_msg_cloud_storage:
  "help_msg ''cloud_storage'' =
     ''To use prefect_gcp.cloud_storage, install prefect-gcp with the 'cloud_storage' extra: `pip install 'prefect_gcp[cloud_storage]'`''"
  by (simp add: help_msg_def)

lemma help_msg_bigquery:
  "help_msg ''bigquery'' =
     ''To use prefect_gcp.bigquery, install prefect-gcp with the 'bigquery' extra: `pip install 'prefect_gcp[bigquery]'`''"
  by (simp add: help_msg_def)

lemma help_msg_secret_manager:
  "help_msg ''secret_manager'' =
     ''To use prefect_gcp.secret_manager, install prefect-gcp with the 'secret_manager' extra: `pip install 'prefect_gcp[secret_manager]'`''"
  by (simp add: help_msg_def)

text \<open>Without the optional packages, the ambient credentials still resolve.\<close>
lemma bare_resolves:
  "get_credentials_from_service_account bare_sdk blank = Inr (''ambient'', None)"
  by (simp add: get_credentials_from_service_account_def bare_sdk_def toy_sdk_def blank_def)

section \<open>Credential resolution\<close>

text \<open>
  Claim C1, as the code has it. Resolution takes the first source that matches, and the
  tests are Python truth values: \<open>service_account_info\<close> is used when it is truthy
  (set and not empty), and is then handed to the vendor with the cloud-platform scope;
  otherwise a \<open>service_account_file\<close> that is set is used, with the same scope;
  otherwise the ambient default credentials are used and the project identifier that
  comes with them is dropped.
\<close>
theorem resolution_order_by_truth_value:
  "(truthy (service_account_info self) \<longrightarrow>
      get_credentials_from_service_account vendor self =
        from_service_account_info vendor (service_account_info self)
          [''https://www.googleapis.com/auth/cloud-platform''])
   \<and> (\<not> truthy (service_account_info self) \<longrightarrow>
        (\<forall>file. service_account_file self = Some file \<longrightarrow>
           get_credentials_from_service_account vendor self =
             from_service_account_file vendor file
               [''https://www.googleapis.com/auth/cloud-platform'']))
   \<and> (\<not> truthy (service_account_info self) \<and> service_account_file self = None \<longrightarrow>
        get_credentials_from_service_account vendor self = map_sum id fst (auth_default vendor))"
  by (auto simp: get_credentials_from_service_account_def cloud_platform_scopes_def
        split: sum.splits option.splits)

theorem resolution_order_by_truth_value_witness:
  "truthy sample_key
   \<and> get_credentials_from_service_account toy_sdk (blank\<lparr>service_account_info := sample_key\<rparr>)
       = Inr (''service-account'', None)
   \<and> get_credentials_from_service_account toy_sdk
         (blank\<lparr>service_account_file := Some ''/home/flow/key.json''\<rparr>)
       = Inr (''service-account'', None)
   \<and> get_credentials_from_service_account toy_sdk blank = Inr (''ambient'', None)"
  using resolution_order_by_truth_value [of "blank\<lparr>service_account_info := sample_key\<rparr>" toy_sdk]
    resolution_order_by_truth_value
      [of "blank\<lparr>service_account_file := Some ''/home/flow/key.json''\<rparr>" toy_sdk]
    resolution_order_by_truth_value [of blank toy_sdk]
  by (simp add: blank_def toy_sdk_def sample_key_def)

text \<open>
  An empty dictionary is a \<open>service_account_info\<close> that is present, and passes
  validation; resolution does not build credentials from it (the vendor would reject it)
  but goes on to the ambient default.
\<close>
theorem empty_info_is_passed_over:
  "service_account_info (blank\<lparr>service_account_info := PyDict []\<rparr>) \<noteq> PyNone
   \<and> get_credentials_from_service_account toy_sdk (blank\<lparr>service_account_info := PyDict []\<rparr>)
       = Inr (''ambient'', None)
   \<and> from_service_account_info toy_sdk (PyDict []) cloud_platform_scopes
       = Inl (ValueError ''malformed key'')"
  by (simp add: get_credentials_from_service_account_def blank_def toy_sdk_def sample_key_def)

section \<open>Failures of construction\<close>

text \<open>
  Claim C2, as the code has it. A configuration with both \<open>service_account_file\<close>
  and \<open>service_account_info\<close> set is never constructed: validation fails. The
  failure is the conflict of the two sources exactly when the expanded path of the file
  exists; when it does not, the failure is the invalid path, and the conflict check,
  which no longer sees the file, reports nothing.
\<close>
theorem both_sources_fail:
  assumes "service_account_file cfg = Some p" and "service_account_info cfg \<noteq> PyNone"
  shows "\<exists>errs. validate_model fs cfg = Inl errs
           \<and> (ValueError both_sources_msg \<in> set errs) = exists fs (expanduser fs p)
           \<and> (ValueError invalid_path_msg \<in> set errs) = (\<not> exists fs (expanduser fs p))"
  using assms msgs_distinct
  by (simp add: validate_model_cases check_file_Some Let_def)

theorem both_sources_fail_witness:
  "service_account_file
       (blank\<lparr>service_account_file := Some ''~/key.json'', service_account_info := sample_key\<rparr>)
     = Some ''~/key.json''
   \<and> sample_key \<noteq> PyNone
   \<and> exists home_fs (expanduser home_fs ''~/key.json'')
   \<and> validate_model home_fs
         (blank\<lparr>service_account_file := Some ''~/key.json'', service_account_info := sample_key\<rparr>)
       = Inl [ValueError both_sources_msg]"
proof -
  let ?cfg = "blank\<lparr>service_account_file := Some ''~/key.json'', service_account_info := sample_key\<rparr>"
  have has_file: "service_account_file ?cfg = Some ''~/key.json''"
    by simp
  have info: "service_account_info ?cfg \<noteq> PyNone"
    by (simp add: sample_key_def)
  have there: "exists home_fs (expanduser home_fs ''~/key.json'')"
    by (simp add: home_fs_def)
  have "validate_model home_fs ?cfg = Inl [ValueError both_sources_msg]"
    by (simp add: validate_model_cases check_file_Some there blank_def sample_key_def
          str_truthy_def)
  with both_sources_fail [OF has_file info, of home_fs] has_file info there show ?thesis
    by (simp add: sample_key_def)
qed

text \<open>
  Both sources set, the file missing, no project: the only error of the construction is
  the invalid path.
\<close>
theorem missing_file_hides_the_conflict:
  "service_account_file
       (blank\<lparr>service_account_file := Some ''~/lost.json'', service_account_info := sample_key\<rparr>)
     \<noteq> None
   \<and> service_account_info
       (blank\<lparr>service_account_file := Some ''~/lost.json'', service_account_info := sample_key\<rparr>)
     \<noteq> PyNone
   \<and> validate_model home_fs
         (blank\<lparr>service_account_file := Some ''~/lost.json'', service_account_info := sample_key\<rparr>)
       = Inl [ValueError ''The provided path to the service account is invalid'']"
  by (simp add: validate_model_cases check_file_Some home_fs_def blank_def sample_key_def
        str_truthy_def invalid_path_msg_def)

text \<open>
  Claim C3, as the code has it. A configuration with \<open>infer_project\<close> true and a
  \<open>project\<close> that is a non-empty string is never constructed: validation fails with
  the error that the project cannot be inferred, whatever else fails.
\<close>
theorem infer_project_with_project_fails:
  assumes "infer_project cfg" and "project cfg = Some p" and "p \<noteq> []"
  shows "\<exists>errs. validate_model fs cfg = Inl errs \<and> ValueError infer_project_msg \<in> set errs"
  using assms
  by (simp add: validate_model_cases str_truthy_def Let_def split: sum.splits)

theorem infer_project_with_project_fails_witness:
  "infer_project (blank\<lparr>project := Some ''acme'', infer_project := True\<rparr>)
   \<and> project (blank\<lparr>project := Some ''acme'', infer_project := True\<rparr>) = Some ''acme''
   \<and> validate_model home_fs (blank\<lparr>project := Some ''acme'', infer_project := True\<rparr>)
       = Inl [ValueError ''Unable to infer project with a project already set'']"
proof -
  let ?cfg = "blank\<lparr>project := Some ''acme'', infer_project := True\<rparr>"
  have flag: "infer_project ?cfg" and proj: "project ?cfg = Some ''acme''"
    and full: "''acme'' \<noteq> []"
    by simp_all
  have "validate_model home_fs ?cfg = Inl [ValueError infer_project_msg]"
    by (simp add: validate_model_cases check_file_None blank_def str_truthy_def)
  with infer_project_with_project_fails [OF flag proj full, of home_fs] flag proj show ?thesis
    by (simp add: infer_project_msg_def)
qed

text \<open>
  A \<open>project\<close> set to the empty string does not count as set for this check:
  construction succeeds with \<open>infer_project\<close> true.
\<close>
theorem empty_project_may_be_inferred:
  "infer_project (blank\<lparr>project := Some [], infer_project := True\<rparr>)
   \<and> project (blank\<lparr>project := Some [], infer_project := True\<rparr>) \<noteq> None
   \<and> validate_model home_fs (blank\<lparr>project := Some [], infer_project := True\<rparr>)
       = Inr (blank\<lparr>project := Some [], infer_project := True\<rparr>)"
  by (simp add: validate_model_cases check_file_None blank_def str_truthy_def)

text \<open>
  Claim C4. When \<open>service_account_file\<close> is set, the path is expanded first and the
  expanded path is the one tested: if it does not exist (\<open>Path.exists\<close>),
  construction fails with the error of the invalid path, and a construction that
  succeeds holds the expanded path, which exists.
\<close>
theorem missing_key_file_is_invalid:
  assumes "service_account_file cfg = Some p"
  shows "(\<not> exists fs (expanduser fs p) \<longrightarrow>
            (\<exists>errs. validate_model fs cfg = Inl errs \<and> ValueError invalid_path_msg \<in> set errs))
         \<and> (\<forall>cfg'. validate_model fs cfg = Inr cfg' \<longrightarrow>
              exists fs (expanduser fs p) \<and> service_account_file cfg' = Some (expanduser fs p))"
  using assms
  by (auto simp: validate_model_cases check_file_Some Let_def split: if_splits)

theorem missing_key_file_is_invalid_witness:
  "expanduser home_fs ''~/lost.json'' = ''/home/flow/lost.json''
   \<and> \<not> exists home_fs ''/home/flow/lost.json''
   \<and> validate_model home_fs (blank\<lparr>service_account_file := Some ''~/lost.json''\<rparr>)
       = Inl [ValueError ''The provided path to the service account is invalid'']
   \<and> validate_model home_fs (blank\<lparr>service_account_file := Some ''~/key.json''\<rparr>)
       = Inr (blank\<lparr>service_account_file := Some ''/home/flow/key.json''\<rparr>)"
proof -
  have lost: "service_account_file (blank\<lparr>service_account_file := Some ''~/lost.json''\<rparr>)
      = Some ''~/lost.json''"
    and kept: "service_account_file (blank\<lparr>service_account_file := Some ''~/key.json''\<rparr>)
      = Some ''~/key.json''"
    by simp_all
  have "validate_model home_fs (blank\<lparr>service_account_file := Some ''~/lost.json''\<rparr>)
      = Inl [ValueError invalid_path_msg]"
    and "validate_model home_fs (blank\<lparr>service_account_file := Some ''~/key.json''\<rparr>)
      = Inr (blank\<lparr>service_account_file := Some ''/home/flow/key.json''\<rparr>)"
    by (simp_all add: validate_model_cases check_file_Some home_fs_def blank_def str_truthy_def)
  with missing_key_file_is_invalid [OF lost, of home_fs]
    missing_key_file_is_invalid [OF kept, of home_fs]
  show ?thesis
    by (simp add: home_fs_def invalid_path_msg_def)
qed

section \<open>Equivalence of the two key sources\<close>

text \<open>
  Claim C8. For a valid service-account key (\<open>from_service_account_info\<close> accepts it
  with the cloud-platform scope; such a key is a non-empty dictionary), resolving from
  the key given inline and resolving from a file that holds the same key give the same
  credential object, built with the cloud-platform scope in both cases. The vendor's
  file constructor is the one modelled from the spec.
\<close>
theorem same_key_inline_or_in_a_file:
  assumes "from_service_account_file vendor = from_service_account_file_spec holds vendor"
    and "holds file = Some key"
    and "truthy key"
    and "from_service_account_info vendor key cloud_platform_scopes = Inr c"
  shows "get_credentials_from_service_account vendor
           (self\<lparr>service_account_info := key, service_account_file := None\<rparr>) = Inr c
         \<and> get_credentials_from_service_account vendor
           (self\<lparr>service_account_info := PyNone, service_account_file := Some file\<rparr>) = Inr c
         \<and> cloud_platform_scopes = [''https://www.googleapis.com/auth/cloud-platform'']"
  using assms
  by (simp add: get_credentials_from_service_account_def from_service_account_file_spec_def
        cloud_platform_scopes_def)

theorem same_key_inline_or_in_a_file_witness:
  "from_service_account_file toy_sdk = from_service_account_file_spec home_keys toy_sdk
   \<and> home_keys ''/home/flow/key.json'' = Some sample_key
   \<and> truthy sample_key
   \<and> get_credentials_from_service_account toy_sdk (blank\<lparr>service_account_info := sample_key\<rparr>)
       = Inr (''service-account'', None)
   \<and> get_credentials_from_service_account toy_sdk
         (blank\<lparr>service_account_file := Some ''/home/flow/key.json''\<rparr>)
       = Inr (''service-account'', None)"
proof -
  have conforms: "from_service_account_file toy_sdk = from_service_account_file_spec home_keys toy_sdk"
    by (rule ext, rule ext)
      (simp add: from_service_account_file_spec_def home_keys_def toy_sdk_def)
  have held: "home_keys ''/home/flow/key.json'' = Some sample_key"
    by (simp add: home_keys_def)
  have full: "truthy sample_key"
    by (simp add: sample_key_def)
  have valid: "from_service_account_info toy_sdk sample_key cloud_platform_scopes
      = Inr (''service-account'', None)"
    by (simp add: toy_sdk_def)
  from same_key_inline_or_in_a_file [OF conforms held full valid, of blank] conforms held full
  show ?thesis
    by (simp add: blank_def)
qed

section \<open>The token minter\<close>

text \<open>
  Claim C5. A call of \<open>get_access_token\<close> returns a token exactly when the
  credentials resolve in that call, their refresh at the endpoint succeeds in that call,
  and the token is the one the refreshed credentials hold: nothing of an earlier call
  enters. Hence two calls between which the endpoint has moved on to another token (the
  earlier one expired) return different tokens.
\<close>
theorem token_is_the_one_just_refreshed:
  "((get_access_token vendor self w = Inr t) =
      (\<exists>c c'. get_credentials_from_service_account vendor self = Inr c
         \<and> refresh vendor c w = Inr c' \<and> token vendor c' = t))
   \<and> (\<forall>c w1 w2 c1 c2.
         get_credentials_from_service_account vendor self = Inr c
         \<and> refresh vendor c w1 = Inr c1 \<and> refresh vendor c w2 = Inr c2
         \<and> token vendor c1 \<noteq> token vendor c2 \<longrightarrow>
         get_access_token vendor self w1 = Inr (token vendor c1)
         \<and> get_access_token vendor self w2 = Inr (token vendor c2)
         \<and> get_access_token vendor self w1 \<noteq> get_access_token vendor self w2)"
  by (auto simp: get_access_token_def split: sum.splits)

theorem token_is_the_one_just_refreshed_witness:
  "get_credentials_from_service_account toy_sdk blank = Inr (''ambient'', None)
   \<and> refresh toy_sdk (''ambient'', None) ''ya29.first'' = Inr (''ambient'', Some ''ya29.first'')
   \<and> refresh toy_sdk (''ambient'', None) ''ya29.second'' = Inr (''ambient'', Some ''ya29.second'')
   \<and> get_access_token toy_sdk blank ''ya29.first'' = Inr (Some ''ya29.first'')
   \<and> get_access_token toy_sdk blank ''ya29.second'' = Inr (Some ''ya29.second'')
   \<and> get_access_token toy_sdk blank ''ya29.first'' \<noteq> get_access_token toy_sdk blank ''ya29.second''"
proof -
  have resolved: "get_credentials_from_service_account toy_sdk blank = Inr (''ambient'', None)"
    by (simp add: get_credentials_from_service_account_def toy_sdk_def blank_def)
  have first: "refresh toy_sdk (''ambient'', None) ''ya29.first'' = Inr (''ambient'', Some ''ya29.first'')"
    and second: "refresh toy_sdk (''ambient'', None) ''ya29.second'' = Inr (''ambient'', Some ''ya29.second'')"
    and differ: "token toy_sdk (''ambient'', Some ''ya29.first'')
        \<noteq> token toy_sdk (''ambient'', Some ''ya29.second'')"
    and tokens: "token toy_sdk (''ambient'', Some ''ya29.first'') = Some ''ya29.first''"
      "token toy_sdk (''ambient'', Some ''ya29.second'') = Some ''ya29.second''"
    by (simp_all add: toy_sdk_def)
  from token_is_the_one_just_refreshed [of toy_sdk blank] resolved first second differ
  have "get_access_token toy_sdk blank ''ya29.first''
          = Inr (token toy_sdk (''ambient'', Some ''ya29.first''))
      \<and> get_access_token toy_sdk blank ''ya29.second''
          = Inr (token toy_sdk (''ambient'', Some ''ya29.second''))
      \<and> get_access_token toy_sdk blank ''ya29.first''
          \<noteq> get_access_token toy_sdk blank ''ya29.second''"
    by blast
  with resolved first second tokens show ?thesis
    by simp
qed

section \<open>The client factories and their projects\<close>

text \<open>
  Claim C6, as the code has it. When the credentials resolve and the vendor package of
  a factory is not installed, the call fails with the \<open>ImportError\<close> whose message
  names the extra of that factory: \<open>cloud_storage\<close>, \<open>bigquery\<close> or
  \<open>secret_manager\<close>.
\<close>
theorem missing_package_names_its_extra:
  assumes "get_credentials_from_service_account vendor self = Inr c"
  shows "(StorageClient vendor = None \<longrightarrow>
            get_cloud_storage_client vendor self p = Inl (ImportError
              ''To use prefect_gcp.cloud_storage, install prefect-gcp with the 'cloud_storage' extra: `pip install 'prefect_gcp[cloud_storage]'`''))
         \<and> (BigQueryClient vendor = None \<longrightarrow>
            get_bigquery_client vendor self p l = Inl (ImportError
              ''To use prefect_gcp.bigquery, install prefect-gcp with the 'bigquery' extra: `pip install 'prefect_gcp[bigquery]'`''))
         \<and> (SecretManagerServiceClient vendor = None \<longrightarrow>
            get_secret_manager_client vendor self = Inl (ImportError
              ''To use prefect_gcp.secret_manager, install prefect-gcp with the 'secret_manager' extra: `pip install 'prefect_gcp[secret_manager]'`''))"
proof (intro conjI impI)
  assume "StorageClient vendor = None"
  with assms have "cloud_storage_client_body vendor (self, p) = Inl (unbound_name ''StorageClient'')"
    by (simp add: cloud_storage_client_body_def)
  then show "get_cloud_storage_client vendor self p = Inl (ImportError
      ''To use prefect_gcp.cloud_storage, install prefect-gcp with the 'cloud_storage' extra: `pip install 'prefect_gcp[cloud_storage]'`'')"
    unfolding get_cloud_storage_client_def unbound_name_def
    by (simp only: raise_help_msg_NameError help_msg_cloud_storage)
next
  assume "BigQueryClient vendor = None"
  with assms have "bigquery_client_body vendor (self, p, l) = Inl (unbound_name ''BigQueryClient'')"
    by (simp add: bigquery_client_body_def)
  then show "get_bigquery_client vendor self p l = Inl (ImportError
      ''To use prefect_gcp.bigquery, install prefect-gcp with the 'bigquery' extra: `pip install 'prefect_gcp[bigquery]'`'')"
    unfolding get_bigquery_client_def unbound_name_def
    by (simp only: raise_help_msg_NameError help_msg_bigquery)
next
  assume "SecretManagerServiceClient vendor = None"
  with assms have "secret_manager_client_body vendor self
      = Inl (unbound_name ''SecretManagerServiceClient'')"
    by (simp add: secret_manager_client_body_def)
  then show "get_secret_manager_client vendor self = Inl (ImportError
      ''To use prefect_gcp.secret_manager, install prefect-gcp with the 'secret_manager' extra: `pip install 'prefect_gcp[secret_manager]'`'')"
    unfolding get_secret_manager_client_def unbound_name_def
    by (simp only: raise_help_msg_NameError help_msg_secret_manager)
qed

theorem missing_package_names_its_extra_witness:
  "get_credentials_from_service_account bare_sdk blank = Inr (''ambient'', None)
   \<and> StorageClient bare_sdk = None \<and> BigQueryClient bare_sdk = None
   \<and> SecretManagerServiceClient bare_sdk = None
   \<and> get_cloud_storage_client bare_sdk blank None = Inl (ImportError (help_msg ''cloud_storage''))
   \<and> get_bigquery_client bare_sdk blank None None = Inl (ImportError (help_msg ''bigquery''))
   \<and> get_secret_manager_client bare_sdk blank = Inl (ImportError (help_msg ''secret_manager''))"
proof -
  have unbound: "StorageClient bare_sdk = None" "BigQueryClient bare_sdk = None"
    "SecretManagerServiceClient bare_sdk = None"
    by (simp_all add: bare_sdk_def)
  from missing_package_names_its_extra [OF bare_resolves, of None None] unbound bare_resolves
  show ?thesis
    by (simp only: help_msg_cloud_storage help_msg_bigquery help_msg_secret_manager simp_thms)
qed

text \<open>
  The credentials are resolved before the client class is named: with no source
  configured and no default credentials on the machine, the call fails with the error
  of the resolution, although the storage package is missing.
\<close>
theorem failed_resolution_comes_first:
  "StorageClient stranded_sdk = None
   \<and> service_account_info blank = PyNone \<and> service_account_file blank = None
   \<and> get_cloud_storage_client stranded_sdk blank None
       = Inl (OtherError ''DefaultCredentialsError'')"
  by (simp add: get_cloud_storage_client_def cloud_storage_client_body_def raise_help_msg_def
        get_credentials_from_service_account_def stranded_sdk_def bare_sdk_def toy_sdk_def
        blank_def)

text \<open>
  Claim C7, as the code has it. The client a storage or bigquery factory returns is the
  one the vendor class builds from the resolved credentials and the effective project:
  the project argument when it is given and not empty, otherwise the project of the
  block. The secret-manager factory takes no project and builds its client from the
  credentials alone.
\<close>
theorem effective_project_of_a_client:
  "((get_cloud_storage_client vendor self p = Inr k) =
      (\<exists>c new. get_credentials_from_service_account vendor self = Inr c
         \<and> StorageClient vendor = Some new
         \<and> new c (if p \<noteq> None \<and> p \<noteq> Some [] then p else project self) = Inr k))
   \<and> ((get_bigquery_client vendor self p l = Inr k) =
      (\<exists>c new. get_credentials_from_service_account vendor self = Inr c
         \<and> BigQueryClient vendor = Some new
         \<and> new c (if p \<noteq> None \<and> p \<noteq> Some [] then p else project self) l = Inr k))
   \<and> ((get_secret_manager_client vendor self = Inr k) =
      (\<exists>c new. get_credentials_from_service_account vendor self = Inr c
         \<and> SecretManagerServiceClient vendor = Some new \<and> new c = Inr k))"
proof -
  have "py_or p (project self) = (if p \<noteq> None \<and> p \<noteq> Some [] then p else project self)"
    by (cases p) (simp_all add: py_or_def str_truthy_def)
  then show ?thesis
    using storage_client_returned [of vendor self p k]
      bigquery_client_returned [of vendor self p l k]
      secret_manager_client_returned [of vendor self k]
    by simp
qed

theorem effective_project_of_a_client_witness:
  "get_cloud_storage_client toy_sdk (blank\<lparr>project := Some ''lake''\<rparr>) (Some ''pond'')
     = Inr (''storage'', ''ambient'', Some ''pond'')
   \<and> get_bigquery_client toy_sdk (blank\<lparr>project := Some ''lake''\<rparr>) None (Some ''EU'')
     = Inr (''bigquery'', ''ambient'', Some ''lake'')
   \<and> get_secret_manager_client toy_sdk (blank\<lparr>project := Some ''lake''\<rparr>)
     = Inr (''secretmanager'', ''ambient'', None)"
proof -
  let ?cfg = "blank\<lparr>project := Some ''lake''\<rparr>"
  have resolved: "get_credentials_from_service_account toy_sdk ?cfg = Inr (''ambient'', None)"
    by (simp add: get_credentials_from_service_account_def toy_sdk_def blank_def)
  have classes: "StorageClient toy_sdk = Some (\<lambda>c p. Inr (''storage'', fst c, p))"
    "BigQueryClient toy_sdk = Some (\<lambda>c p l. Inr (''bigquery'', fst c, p))"
    "SecretManagerServiceClient toy_sdk = Some (\<lambda>c. Inr (''secretmanager'', fst c, None))"
    by (simp_all add: toy_sdk_def)
  show ?thesis
    using effective_project_of_a_client
        [where vendor = toy_sdk and self = ?cfg and p = "Some ''pond''"
           and k = "(''storage'', ''ambient'', Some ''pond'')"]
      effective_project_of_a_client
        [where vendor = toy_sdk and self = ?cfg and p = None and l = "Some ''EU''"
           and k = "(''bigquery'', ''ambient'', Some ''lake'')"]
      effective_project_of_a_client
        [where vendor = toy_sdk and self = ?cfg and k = "(''secretmanager'', ''ambient'', None)"]
    by (simp add: resolved classes)
qed

text \<open>
  An argument that is provided but empty is not the project of the client: the block's
  project is.
\<close>
theorem empty_argument_does_not_override:
  "get_cloud_storage_client toy_sdk (blank\<lparr>project := Some ''lake''\<rparr>) (Some [])
     = Inr (''storage'', ''ambient'', Some ''lake'')
   \<and> get_cloud_storage_client toy_sdk (blank\<lparr>project := Some ''lake''\<rparr>) (Some [])
     \<noteq> Inr (''storage'', ''ambient'', Some [])"
  by (simp add: get_cloud_storage_client_def cloud_storage_client_body_def raise_help_msg_def
        get_credentials_from_service_account_def py_or_def str_truthy_def toy_sdk_def blank_def)

text \<open>
  Claim C10. Called with the empty string as project, the storage and the bigquery
  factory do what they do without the argument: the choice is by truth value
  (\<open>project or self.project\<close>), so the client is built with the project of the
  block.
\<close>
theorem empty_project_argument_is_ignored:
  "get_cloud_storage_client vendor self (Some []) = get_cloud_storage_client vendor self None
   \<and> get_bigquery_client vendor self (Some []) l = get_bigquery_client vendor self None l
   \<and> ((get_cloud_storage_client vendor self (Some []) = Inr k) =
        (\<exists>c new. get_credentials_from_service_account vendor self = Inr c
           \<and> StorageClient vendor = Some new \<and> new c (project self) = Inr k))
   \<and> ((get_bigquery_client vendor self (Some []) l = Inr k) =
        (\<exists>c new. get_credentials_from_service_account vendor self = Inr c
           \<and> BigQueryClient vendor = Some new \<and> new c (project self) l = Inr k))"
  using storage_client_returned [of vendor self "Some []" k]
    bigquery_client_returned [of vendor self "Some []" l k]
  by (simp add: py_or_empty storage_client_empty_project bigquery_client_empty_project)

theorem empty_project_argument_is_ignored_witness:
  "get_cloud_storage_client toy_sdk
       (blank\<lparr>service_account_info := sample_key, project := Some ''warehouse''\<rparr>) (Some [])
     = Inr (''storage'', ''service-account'', Some ''warehouse'')
   \<and> get_bigquery_client toy_sdk
       (blank\<lparr>service_account_info := sample_key, project := Some ''warehouse''\<rparr>) (Some []) None
     = Inr (''bigquery'', ''service-account'', Some ''warehouse'')"
proof -
  let ?cfg = "blank\<lparr>service_account_info := sample_key, project := Some ''warehouse''\<rparr>"
  have resolved: "get_credentials_from_service_account toy_sdk ?cfg = Inr (''service-account'', None)"
    by (simp add: get_credentials_from_service_account_def toy_sdk_def sample_key_def blank_def)
  have classes: "StorageClient toy_sdk = Some (\<lambda>c p. Inr (''storage'', fst c, p))"
    "BigQueryClient toy_sdk = Some (\<lambda>c p l. Inr (''bigquery'', fst c, p))"
    by (simp_all add: toy_sdk_def)
  from empty_project_argument_is_ignored
    [where vendor = toy_sdk and self = ?cfg and l = None
       and k = "(''storage'', ''service-account'', Some ''warehouse'')"]
  have "(get_cloud_storage_client toy_sdk ?cfg (Some [])
           = Inr (''storage'', ''service-account'', Some ''warehouse'')) =
        (\<exists>c new. get_credentials_from_service_account toy_sdk ?cfg = Inr c
           \<and> StorageClient toy_sdk = Some new
           \<and> new c (project ?cfg) = Inr (''storage'', ''service-account'', Some ''warehouse''))"
    by (elim conjE)
  then have storage: "get_cloud_storage_client toy_sdk ?cfg (Some [])
      = Inr (''storage'', ''service-account'', Some ''warehouse'')"
    by (simp add: resolved classes)
  from empty_project_argument_is_ignored
    [where vendor = toy_sdk and self = ?cfg and l = None
       and k = "(''bigquery'', ''service-account'', Some ''warehouse'')"]
  have "(get_bigquery_client toy_sdk ?cfg (Some []) None
           = Inr (''bigquery'', ''service-account'', Some ''warehouse'')) =
        (\<exists>c new. get_credentials_from_service_account toy_sdk ?cfg = Inr c
           \<and> BigQueryClient toy_sdk = Some new
           \<and> new c (project ?cfg) None = Inr (''bigquery'', ''service-account'', Some ''warehouse''))"
    by (elim conjE)
  then have "get_bigquery_client toy_sdk ?cfg (Some []) None
      = Inr (''bigquery'', ''service-account'', Some ''warehouse'')"
    by (simp add: resolved classes)
  with storage show ?thesis
    by (rule conjI)
qed

section \<open>What a call may change in the record\<close>

text \<open>
  Claim C9. No call changes \<open>service_account_file\<close>, \<open>service_account_info\<close> or
  \<open>infer_project\<close>, and only \<open>block_initialization\<close> with \<open>infer_project\<close>
  true changes the record at all: it then sets \<open>project\<close> to the project id of the
  credentials it resolved. With \<open>infer_project\<close> false, initialization succeeds and
  leaves the record as it was.
\<close>
theorem only_initialization_writes_project:
  "(m \<noteq> BlockInitialization \<or> \<not> infer_project self \<longrightarrow> snd (invoke vendor w m self) = self)
   \<and> (\<not> infer_project self \<longrightarrow> block_initialization vendor self = Inr self)
   \<and> (\<forall>self'. block_initialization vendor self = Inr self' \<and> infer_project self \<longrightarrow>
         (\<exists>c. get_credentials_from_service_account vendor self = Inr c
            \<and> project_id vendor c = Inr (project self'))
         \<and> self' = self\<lparr>project := project self'\<rparr>)
   \<and> service_account_file (snd (invoke vendor w m self)) = service_account_file self
   \<and> service_account_info (snd (invoke vendor w m self)) = service_account_info self
   \<and> infer_project (snd (invoke vendor w m self)) = infer_project self"
  by (cases m) (auto simp: invoke_def block_initialization_def split: sum.splits)

theorem only_initialization_writes_project_witness:
  "block_initialization toy_sdk blank = Inr blank
   \<and> snd (invoke toy_sdk ''ya29.first'' BlockInitialization blank) = blank
   \<and> snd (invoke toy_sdk ''ya29.first'' GetAccessToken
            (blank\<lparr>service_account_info := sample_key, infer_project := True\<rparr>))
       = blank\<lparr>service_account_info := sample_key, infer_project := True\<rparr>
   \<and> block_initialization toy_sdk (blank\<lparr>service_account_info := sample_key, infer_project := True\<rparr>)
       = Inr (blank\<lparr>service_account_info := sample_key, infer_project := True,
                    project := Some ''acme''\<rparr>)"
proof -
  let ?cfg = "blank\<lparr>service_account_info := sample_key, infer_project := True\<rparr>"
  have off: "\<not> infer_project blank"
    by (simp add: blank_def)
  have inferred: "block_initialization toy_sdk ?cfg = Inr (?cfg\<lparr>project := Some ''acme''\<rparr>)"
    by (simp add: block_initialization_def get_credentials_from_service_account_def toy_sdk_def
          sample_key_def blank_def)
  from only_initialization_writes_project
      [where m = BlockInitialization and self = blank and vendor = toy_sdk
         and w = "''ya29.first''"]
    only_initialization_writes_project
      [where m = GetAccessToken and self = ?cfg and vendor = toy_sdk and w = "''ya29.first''"]
    off inferred
  show ?thesis
    by simp
qed

end
